theory Spec2Isabelle
  imports Main
begin

section \<open>JavaScript values\<close>

text \<open>
  The values a parsed JSON body and the component state can hold. Numbers are the
  integers (the identifiers the backend sends); the only test the controller makes
  on a number is its truthiness, which is false at zero.
\<close>

datatype jsvalue =
    JUndefined
  | JNull
  | JBool bool
  | JNum int
  | JStr string
  | JArr "jsvalue list"
  | JObj "(string \<times> jsvalue) list"

datatype error =
    FetchRejected
  | HttpError nat
  | JsonRejected
  | TypeError
  | Error string

text \<open>Truthiness, as \<^verbatim>\<open>!v\<close> and \<^verbatim>\<open>v && ...\<close> test it.\<close>

fun truthy :: "jsvalue \<Rightarrow> bool" where
  "truthy JUndefined = False"
| "truthy JNull = False"
| "truthy (JBool b) = b"
| "truthy (JNum n) = (n \<noteq> 0)"
| "truthy (JStr s) = (s \<noteq> [])"
| "truthy (JArr xs) = True"
| "truthy (JObj kvs) = True"

fun typeof :: "jsvalue \<Rightarrow> string" where
  "typeof JUndefined = ''undefined''"
| "typeof JNull = ''object''"
| "typeof (JBool b) = ''boolean''"
| "typeof (JNum n) = ''number''"
| "typeof (JStr s) = ''string''"
| "typeof (JArr xs) = ''object''"
| "typeof (JObj kvs) = ''object''"

fun isArray :: "jsvalue \<Rightarrow> bool" where
  "isArray (JArr xs) = True"
| "isArray v = False"

fun nullish :: "jsvalue \<Rightarrow> bool" where
  "nullish JUndefined = True"
| "nullish JNull = True"
| "nullish v = False"

text \<open>
  Reading a named property of a value that is neither \<^verbatim>\<open>null\<close> nor
  \<^verbatim>\<open>undefined\<close>. An object gives the property it owns, or \<^verbatim>\<open>undefined\<close>;
  for the five names the controller reads (\<^verbatim>\<open>id\<close>, \<^verbatim>\<open>question_text\<close>,
  \<^verbatim>\<open>options\<close>, \<^verbatim>\<open>is_correct\<close>, \<^verbatim>\<open>solution_steps\<close>) every other value
  gives \<^verbatim>\<open>undefined\<close>.
\<close>

fun property :: "jsvalue \<Rightarrow> string \<Rightarrow> jsvalue" where
  "property (JObj kvs) k = (case map_of kvs k of None \<Rightarrow> JUndefined | Some v \<Rightarrow> v)"
| "property v k = JUndefined"

text \<open>\<^verbatim>\<open>v.k\<close> throws a TypeError on a nullish value; \<^verbatim>\<open>v?.k\<close> gives \<^verbatim>\<open>undefined\<close> there.\<close>

definition member :: "jsvalue \<Rightarrow> string \<Rightarrow> error + jsvalue" where
  "member v k = (if nullish v then Inl TypeError else Inr (property v k))"

definition opt_member :: "jsvalue \<Rightarrow> string \<Rightarrow> jsvalue" where
  "opt_member v k = (if nullish v then JUndefined else property v k)"

section \<open>The network\<close>

text \<open>
  What \<^verbatim>\<open>await fetch(...)\<close> gives: the promise rejects (a transport error) or it
  resolves to a response with a status; \<^verbatim>\<open>response.ok\<close> is true for the statuses
  200 to 299. \<^verbatim>\<open>await response.json()\<close> gives the parsed body, or rejects when the
  body is not JSON (\<open>None\<close>).
\<close>

record response =
  status :: nat
  json :: "jsvalue option"

datatype fetch_outcome = Rejected | Resolved response

definition ok :: "response \<Rightarrow> bool" where
  "ok r = (200 \<le> status r \<and> status r \<le> 299)"

datatype request =
    PostQuestions string string
  | PostSubmit jsvalue string

section \<open>The state of the controller\<close>

datatype variant = Default | Destructive

record toast_entry =
  toast_id :: string
  title :: "string option"
  description :: "string option"
  variant :: variant

record toast_args =
  arg_title :: "string option"
  arg_description :: "string option"
  arg_variant :: "variant option"

text \<open>The two callbacks the code hands to \<^verbatim>\<open>setTimeout\<close>.\<close>

datatype callback =
    RemoveToast string
  | CommitFeedback jsvalue

text \<open>
  The six state variables of \<^verbatim>\<open>MathTutor\<close>, the toast list of \<^verbatim>\<open>useToast\<close>, and
  the environment the handlers act on: the pending timers in the order they were
  registered, each with the time it falls due, the clock in milliseconds, the requests
  issued, and what was written with \<^verbatim>\<open>console.error\<close>. A call of a state setter
  is the update of its field, taken in the order the calls are made; the handlers read
  the state only before their first \<^verbatim>\<open>await\<close>.
\<close>

record tutor =
  topic :: string
  difficulty :: string
  question :: jsvalue
  selectedAnswer :: string
  feedback :: jsvalue
  loading :: bool
  toasts :: "toast_entry list"
  timers :: "(nat \<times> callback) list"
  now :: nat
  requests :: "request list"
  console :: "error list"

definition initial :: tutor where
  "initial =
     \<lparr>topic = [], difficulty = [], question = JNull, selectedAnswer = [],
      feedback = JNull, loading = False, toasts = [], timers = [], now = 0,
      requests = [], console = []\<rparr>"

definition setTopic :: "string \<Rightarrow> tutor \<Rightarrow> tutor" where
  "setTopic v s = s\<lparr>topic := v\<rparr>"

definition setDifficulty :: "string \<Rightarrow> tutor \<Rightarrow> tutor" where
  "setDifficulty v s = s\<lparr>difficulty := v\<rparr>"

definition setQuestion :: "jsvalue \<Rightarrow> tutor \<Rightarrow> tutor" where
  "setQuestion v s = s\<lparr>question := v\<rparr>"

definition setSelectedAnswer :: "string \<Rightarrow> tutor \<Rightarrow> tutor" where
  "setSelectedAnswer v s = s\<lparr>selectedAnswer := v\<rparr>"

definition setFeedback :: "jsvalue \<Rightarrow> tutor \<Rightarrow> tutor" where
  "setFeedback v s = s\<lparr>feedback := v\<rparr>"

definition setLoading :: "bool \<Rightarrow> tutor \<Rightarrow> tutor" where
  "setLoading v s = s\<lparr>loading := v\<rparr>"

definition setTimeout :: "callback \<Rightarrow> nat \<Rightarrow> tutor \<Rightarrow> tutor" where
  "setTimeout cb delay s = s\<lparr>timers := timers s @ [(now s + delay, cb)]\<rparr>"

definition send :: "request \<Rightarrow> tutor \<Rightarrow> tutor" where
  "send rq s = s\<lparr>requests := requests s @ [rq]\<rparr>"

section \<open>The toast notifier\<close>

text \<open>
  \<^verbatim>\<open>toast\<close> of \<^verbatim>\<open>useToast\<close>. The identifier drawn from \<^verbatim>\<open>Math.random()\<close> is
  the parameter \<open>rid\<close>: the code draws it and never compares it with the identifiers
  in the list.
\<close>

definition toast :: "string \<Rightarrow> toast_args \<Rightarrow> tutor \<Rightarrow> tutor" where
  "toast rid a s =
     setTimeout (RemoveToast rid) 5000
       (s\<lparr>toasts := toasts s @
            [\<lparr>toast_id = rid, title = arg_title a, description = arg_description a,
              variant = (case arg_variant a of None \<Rightarrow> Default | Some v \<Rightarrow> v)\<rparr>]\<rparr>)"

fun run_callback :: "callback \<Rightarrow> tutor \<Rightarrow> tutor" where
  "run_callback (RemoveToast rid) s =
     s\<lparr>toasts := filter (\<lambda>t. toast_id t \<noteq> rid) (toasts s)\<rparr>"
| "run_callback (CommitFeedback data) s = setLoading False (setFeedback data s)"

text \<open>
  The passage of \<open>d\<close> milliseconds with no other event: the timers that fall due are
  taken off the list and their callbacks run, earliest first, and in the order of
  registration where two fall due together (\<open>sort_key\<close> is stable). No callback of
  this program reads the clock or registers a timer.
\<close>

definition is_due :: "nat \<Rightarrow> nat \<times> callback \<Rightarrow> bool" where
  "is_due t e = (fst e \<le> t)"

definition due_callbacks :: "nat \<Rightarrow> tutor \<Rightarrow> callback list" where
  "due_callbacks d s = map snd (sort_key fst (filter (is_due (now s + d)) (timers s)))"

definition advance :: "nat \<Rightarrow> tutor \<Rightarrow> tutor" where
  "advance d s =
     fold run_callback (due_callbacks d s)
       (s\<lparr>now := now s + d,
          timers := filter (\<lambda>e. \<not> is_due (now s + d) e) (timers s)\<rparr>)"

fun is_commit :: "callback \<Rightarrow> bool" where
  "is_commit (CommitFeedback data) = True"
| "is_commit (RemoveToast rid) = False"

section \<open>The quiz controller\<close>

definition handleError :: "string \<Rightarrow> error \<Rightarrow> string \<Rightarrow> tutor \<Rightarrow> tutor" where
  "handleError rid e customMessage s =
     toast rid \<lparr>arg_title = Some ''Error'', arg_description = Some customMessage,
                arg_variant = Some Destructive\<rparr>
       (s\<lparr>console := console s @ [e]\<rparr>)"

subsection \<open>Request Question\<close>

text \<open>
  The \<^verbatim>\<open>try\<close> block of \<^verbatim>\<open>fetchQuestion\<close> from the first \<^verbatim>\<open>await\<close> to the check of
  the payload: the error thrown, or the payload that passed.
\<close>

definition question_payload :: "fetch_outcome \<Rightarrow> error + jsvalue" where
  "question_payload net =
     (case net of
        Rejected \<Rightarrow> Inl FetchRejected
      | Resolved r \<Rightarrow>
          if \<not> ok r then Inl (HttpError (status r))
          else (case json r of
                  None \<Rightarrow> Inl JsonRejected
                | Some data \<Rightarrow>
                    if nullish data then Inl TypeError
                    else if \<not> truthy (property data ''id'')
                          \<or> \<not> truthy (property data ''question_text'')
                          \<or> \<not> isArray (property data ''options'')
                    then Inl (Error ''Invalid question format received'')
                    else Inr data))"

text \<open>
  What \<^verbatim>\<open>fetchQuestion\<close> does once the request has settled, in the state the
  component is in by then: the rest of the \<^verbatim>\<open>try\<close> block, or the \<^verbatim>\<open>catch\<close> block,
  and the \<^verbatim>\<open>finally\<close> block.
\<close>

definition fetchQuestion_settle :: "string \<Rightarrow> fetch_outcome \<Rightarrow> tutor \<Rightarrow> tutor" where
  "fetchQuestion_settle rid net s =
     setLoading False
       (case question_payload net of
          Inr data \<Rightarrow> setFeedback JNull (setSelectedAnswer [] (setQuestion data s))
        | Inl e \<Rightarrow> handleError rid e ''Failed to fetch question. Please try again.'' s)"

text \<open>
  A run of \<^verbatim>\<open>fetchQuestion\<close> with no other event, and no tick of the clock, between
  the call and the answer. The two \<^verbatim>\<open>await\<close>s are taken together: the handler touches
  no state between them.
\<close>

definition fetchQuestion :: "string \<Rightarrow> fetch_outcome \<Rightarrow> tutor \<Rightarrow> tutor" where
  "fetchQuestion rid net s =
     (if topic s = [] \<or> difficulty s = [] then
        toast rid \<lparr>arg_title = Some ''Invalid Input'',
                   arg_description = Some ''Please select both topic and difficulty'',
                   arg_variant = Some Destructive\<rparr> s
      else
        fetchQuestion_settle rid net
          (send (PostQuestions (topic s) (difficulty s)) (setLoading True s)))"

subsection \<open>Submit Answer\<close>

definition feedback_payload :: "fetch_outcome \<Rightarrow> error + jsvalue" where
  "feedback_payload net =
     (case net of
        Rejected \<Rightarrow> Inl FetchRejected
      | Resolved r \<Rightarrow>
          if \<not> ok r then Inl (HttpError (status r))
          else (case json r of
                  None \<Rightarrow> Inl JsonRejected
                | Some data \<Rightarrow>
                    if nullish data then Inl TypeError
                    else if typeof (property data ''is_correct'') \<noteq> ''boolean''
                          \<or> \<not> isArray (property data ''solution_steps'')
                    then Inl (Error ''Invalid feedback format received'')
                    else Inr data))"

definition submitAnswer_catch :: "string \<Rightarrow> error \<Rightarrow> tutor \<Rightarrow> tutor" where
  "submitAnswer_catch rid e s =
     setLoading False (handleError rid e ''Failed to submit answer. Please try again.'' s)"

definition submitAnswer_settle :: "string \<Rightarrow> fetch_outcome \<Rightarrow> tutor \<Rightarrow> tutor" where
  "submitAnswer_settle rid net s =
     (case feedback_payload net of
        Inr data \<Rightarrow> setTimeout (CommitFeedback data) 5000 s
      | Inl e \<Rightarrow> submitAnswer_catch rid e s)"

text \<open>
  A run of \<^verbatim>\<open>submitAnswer\<close>, likewise. The request body reads \<^verbatim>\<open>question.id\<close>
  inside the \<^verbatim>\<open>try\<close> block, after \<^verbatim>\<open>setLoading(true)\<close>. A valid response registers
  the commit of the feedback 5000 milliseconds after the clock at which it is handled.
\<close>

definition submitAnswer :: "string \<Rightarrow> fetch_outcome \<Rightarrow> tutor \<Rightarrow> tutor" where
  "submitAnswer rid net s =
     (if \<not> truthy (opt_member (question s) ''id'') \<or> selectedAnswer s = [] then
        toast rid \<lparr>arg_title = Some ''Invalid Submission'',
                   arg_description = Some ''Please select an answer before submitting'',
                   arg_variant = Some Destructive\<rparr> s
      else
        (case member (question s) ''id'' of
           Inl e \<Rightarrow> submitAnswer_catch rid e (setLoading True s)
         | Inr qid \<Rightarrow>
             submitAnswer_settle rid net
               (send (PostSubmit qid (selectedAnswer s)) (setLoading True s))))"

subsection \<open>The handlers up to their first await\<close>

text \<open>
  What a click runs before the handler is suspended: the guard, and then
  \<^verbatim>\<open>setLoading(true)\<close> and the request. The answer is handled later, by
  \<open>fetchQuestion_settle\<close> or \<open>submitAnswer_settle\<close>, in the state the component has
  reached by then.
\<close>

definition fetchQuestion_call :: "string \<Rightarrow> tutor \<Rightarrow> tutor" where
  "fetchQuestion_call rid s =
     (if topic s = [] \<or> difficulty s = [] then
        toast rid \<lparr>arg_title = Some ''Invalid Input'',
                   arg_description = Some ''Please select both topic and difficulty'',
                   arg_variant = Some Destructive\<rparr> s
      else send (PostQuestions (topic s) (difficulty s)) (setLoading True s))"

definition submitAnswer_call :: "string \<Rightarrow> tutor \<Rightarrow> tutor" where
  "submitAnswer_call rid s =
     (if \<not> truthy (opt_member (question s) ''id'') \<or> selectedAnswer s = [] then
        toast rid \<lparr>arg_title = Some ''Invalid Submission'',
                   arg_description = Some ''Please select an answer before submitting'',
                   arg_variant = Some Destructive\<rparr> s
      else
        (case member (question s) ''id'' of
           Inl e \<Rightarrow> submitAnswer_catch rid e (setLoading True s)
         | Inr qid \<Rightarrow> send (PostSubmit qid (selectedAnswer s)) (setLoading True s)))"

section \<open>The rendered controls and the events of a session\<close>

text \<open>
  The values the two selectors offer, and the \<^verbatim>\<open>disabled\<close> attributes of the buttons as
  the component renders them. The question card, with the radio group and the Submit
  button, is rendered when \<^verbatim>\<open>question\<close> is truthy; the feedback card, with the Try
  Another Question button, when \<^verbatim>\<open>feedback\<close> is truthy. The Try Another Question
  button has no \<^verbatim>\<open>disabled\<close> attribute.
\<close>

definition topics :: "string list" where
  "topics = [''algebra'', ''geometry'', ''trigonometry'', ''calculus'', ''statistics'']"

definition difficulties :: "string list" where
  "difficulties = [''beginner'', ''intermediate'', ''advanced'']"

definition getQuestion_disabled :: "tutor \<Rightarrow> bool" where
  "getQuestion_disabled s = (topic s = [] \<or> difficulty s = [] \<or> loading s)"

definition submit_disabled :: "tutor \<Rightarrow> bool" where
  "submit_disabled s = (selectedAnswer s = [] \<or> loading s)"

text \<open>The values of the radio items: the \<^verbatim>\<open>text\<close> of each option of the question.\<close>

fun option_text :: "jsvalue \<Rightarrow> string option" where
  "option_text v = (case property v ''text'' of JStr t \<Rightarrow> Some t | _ \<Rightarrow> None)"

definition option_texts :: "jsvalue \<Rightarrow> string list" where
  "option_texts q =
     (case property q ''options'' of JArr os \<Rightarrow> List.map_filter option_text os | _ \<Rightarrow> [])"

text \<open>
  A session is the component state together with the requests that await their answer,
  oldest first. An event is a choice in a selector, a click on a button that is rendered
  and enabled, the answer to a request in flight, or the passage of time. The string of
  a click or an answer is the identifier \<^verbatim>\<open>Math.random()\<close> yields should the handler
  raise a notice. \<open>step\<close> gives \<open>None\<close> for an event the page does not admit.
\<close>

datatype event =
    SelectTopic string
  | SelectDifficulty string
  | SelectAnswer string
  | ClickGetQuestion string
  | ClickSubmit string
  | ClickTryAnother string
  | QuestionResponse string fetch_outcome
  | SubmitResponse string fetch_outcome
  | Wait nat

fun is_question_request :: "request \<Rightarrow> bool" where
  "is_question_request (PostQuestions t d) = True"
| "is_question_request (PostSubmit qid a) = False"

fun is_submit_request :: "request \<Rightarrow> bool" where
  "is_submit_request (PostQuestions t d) = False"
| "is_submit_request (PostSubmit qid a) = True"

fun take_first :: "('a \<Rightarrow> bool) \<Rightarrow> 'a list \<Rightarrow> 'a list option" where
  "take_first P [] = None"
| "take_first P (x # xs) =
     (if P x then Some xs else map_option ((#) x) (take_first P xs))"

definition call :: "(tutor \<Rightarrow> tutor) \<Rightarrow> tutor \<times> request list \<Rightarrow> tutor \<times> request list" where
  "call handler c =
     (handler (fst c),
      snd c @ drop (length (requests (fst c))) (requests (handler (fst c))))"

fun step :: "event \<Rightarrow> tutor \<times> request list \<Rightarrow> (tutor \<times> request list) option" where
  "step (SelectTopic v) (s, p) =
     (if v \<in> set topics then Some (setTopic v s, p) else None)"
| "step (SelectDifficulty v) (s, p) =
     (if v \<in> set difficulties then Some (setDifficulty v s, p) else None)"
| "step (SelectAnswer v) (s, p) =
     (if truthy (question s) \<and> v \<in> set (option_texts (question s))
      then Some (setSelectedAnswer v s, p) else None)"
| "step (ClickGetQuestion rid) (s, p) =
     (if getQuestion_disabled s then None else Some (call (fetchQuestion_call rid) (s, p)))"
| "step (ClickSubmit rid) (s, p) =
     (if truthy (question s) \<and> \<not> submit_disabled s
      then Some (call (submitAnswer_call rid) (s, p)) else None)"
| "step (ClickTryAnother rid) (s, p) =
     (if truthy (feedback s) then Some (call (fetchQuestion_call rid) (s, p)) else None)"
| "step (QuestionResponse rid net) (s, p) =
     map_option (Pair (fetchQuestion_settle rid net s)) (take_first is_question_request p)"
| "step (SubmitResponse rid net) (s, p) =
     map_option (Pair (submitAnswer_settle rid net s)) (take_first is_submit_request p)"
| "step (Wait d) (s, p) = Some (advance d s, p)"

fun run :: "event list \<Rightarrow> tutor \<times> request list \<Rightarrow> (tutor \<times> request list) option" where
  "run [] c = Some c"
| "run (e # es) c = (case step e c of None \<Rightarrow> None | Some c' \<Rightarrow> run es c')"

section \<open>Sample data and a sample session\<close>

text \<open>
  The question and the feedback of the scenario the repository documents, and the state
  of a session in which that question has been fetched and the answer 4 selected.
\<close>

definition sample_question :: jsvalue where
  "sample_question =
     JObj [(''id'', JNum 1), (''question_text'', JStr ''2+2=?''),
           (''options'', JArr [JObj [(''text'', JStr ''3'')], JObj [(''text'', JStr ''4'')]])]"

definition sample_feedback :: jsvalue where
  "sample_feedback =
     JObj [(''is_correct'', JBool True), (''explanation'', JStr ''...''),
           (''solution_steps'', JArr [JStr ''Add 2 and 2''])]"

definition answering :: tutor where
  "answering =
     setSelectedAnswer ''4''
       (fetchQuestion ''t1'' (Resolved \<lparr>status = 200, json = Some sample_question\<rparr>)
          (setDifficulty ''beginner'' (setTopic ''algebra'' initial)))"

definition zero_id_question :: jsvalue where
  "zero_id_question =
     JObj [(''id'', JNum 0), (''question_text'', JStr ''2+2=?''),
           (''options'', JArr [JObj [(''text'', JStr ''3'')], JObj [(''text'', JStr ''4'')]])]"

definition unflagged_feedback :: jsvalue where
  "unflagged_feedback =
     JObj [(''is_correct'', JStr ''true''), (''explanation'', JStr ''...''),
           (''solution_steps'', JArr [JStr ''Add 2 and 2''])]"

text \<open>
  A session of clicks. The question of the scenario is fetched and answered, and its
  feedback is shown five seconds after the answer came. The same answer is then
  submitted again (Submit is enabled, loading being false), and the grading answers 300
  milliseconds later: the component is in the five seconds before that feedback is
  shown. The second list goes on from there: a second into the wait the user clicks Try
  Another Question on the feedback card still on display, and the next question arrives.
\<close>

definition next_question :: jsvalue where
  "next_question =
     JObj [(''id'', JNum 2), (''question_text'', JStr ''3*3=?''),
           (''options'', JArr [JObj [(''text'', JStr ''6'')], JObj [(''text'', JStr ''9'')]])]"

definition repeat_feedback :: jsvalue where
  "repeat_feedback =
     JObj [(''is_correct'', JBool True), (''explanation'', JStr ''again''),
           (''solution_steps'', JArr [JStr ''Add 2 and 2''])]"

definition resubmission :: "event list" where
  "resubmission =
     [SelectTopic ''algebra'', SelectDifficulty ''beginner'',
      ClickGetQuestion ''t1'', Wait 300,
      QuestionResponse ''t1'' (Resolved \<lparr>status = 200, json = Some sample_question\<rparr>),
      SelectAnswer ''4'',
      ClickSubmit ''t2'', Wait 300,
      SubmitResponse ''t2'' (Resolved \<lparr>status = 200, json = Some sample_feedback\<rparr>),
      Wait 5000,
      ClickSubmit ''t3'', Wait 300,
      SubmitResponse ''t3'' (Resolved \<lparr>status = 200, json = Some repeat_feedback\<rparr>)]"

definition try_another :: "event list" where
  "try_another =
     [Wait 1000,
      ClickTryAnother ''t4'', Wait 300,
      QuestionResponse ''t4'' (Resolved \<lparr>status = 200, json = Some next_question\<rparr>)]"

text \<open>A session showing one notice, two seconds old: a question request that met a 500.\<close>

definition noticed :: tutor where
  "noticed =
     advance 2000
       (fetchQuestion ''a1'' (Resolved \<lparr>status = 500, json = None\<rparr>)
          (setDifficulty ''beginner'' (setTopic ''algebra'' initial)))"

section \<open>Properties\<close>

lemmas setters =
  setTopic_def setDifficulty_def setQuestion_def setSelectedAnswer_def setFeedback_def
  setLoading_def setTimeout_def send_def

lemma toast_eq:
  "toast rid a s =
     s\<lparr>toasts := toasts s @
          [\<lparr>toast_id = rid, title = arg_title a, description = arg_description a,
            variant = (case arg_variant a of None \<Rightarrow> Default | Some v \<Rightarrow> v)\<rparr>],
       timers := timers s @ [(now s + 5000, RemoveToast rid)]\<rparr>"
  by (simp add: toast_def setTimeout_def)

subsection \<open>Timers\<close>

text \<open>A timer registered last, falling due no earlier than the others, runs last.\<close>

lemma insort_key_snoc:
  "f y \<le> f x \<Longrightarrow> insort_key f y (zs @ [x]) = insort_key f y zs @ [x]"
  by (induction zs) auto

lemma sort_key_snoc:
  "\<forall>y\<in>set xs. f y \<le> f x \<Longrightarrow> sort_key f (xs @ [x]) = sort_key f xs @ [x]"
  by (induction xs) (auto simp add: insort_key_snoc)

lemma run_callback_toasts_upd:
  "run_callback c (s\<lparr>toasts := ts\<rparr>) =
     (run_callback c s)\<lparr>toasts := filter (\<lambda>t. RemoveToast (toast_id t) \<noteq> c) ts\<rparr>"
  by (cases c) (simp_all add: setters)

lemma fold_callbacks_toasts_upd:
  "fold run_callback cbs (s\<lparr>toasts := ts\<rparr>) =
     (fold run_callback cbs s)\<lparr>toasts := filter (\<lambda>t. RemoveToast (toast_id t) \<notin> set cbs) ts\<rparr>"
proof (induction cbs arbitrary: s ts)
  case Nil
  show ?case by simp
next
  case (Cons c cbs)
  have "filter (\<lambda>t. RemoveToast (toast_id t) \<notin> set cbs) (filter (\<lambda>t. RemoveToast (toast_id t) \<noteq> c) ts)
      = filter (\<lambda>t. RemoveToast (toast_id t) \<notin> set (c # cbs)) ts"
    by (auto intro: filter_cong)
  then show ?case
    by (simp add: run_callback_toasts_upd Cons.IH)
qed

lemma fold_callbacks_toasts:
  "toasts (fold run_callback cbs s) = filter (\<lambda>t. RemoveToast (toast_id t) \<notin> set cbs) (toasts s)"
proof -
  have "fold run_callback cbs s = fold run_callback cbs (s\<lparr>toasts := toasts s\<rparr>)"
    by simp
  also have "toasts \<dots> = filter (\<lambda>t. RemoveToast (toast_id t) \<notin> set cbs) (toasts s)"
    by (simp only: fold_callbacks_toasts_upd) simp
  finally show ?thesis .
qed

lemma fold_callbacks_timers_upd:
  "fold run_callback cbs (s\<lparr>timers := ts\<rparr>) = (fold run_callback cbs s)\<lparr>timers := ts\<rparr>"
proof (induction cbs arbitrary: s)
  case Nil
  show ?case by simp
next
  case (Cons c cbs)
  have "run_callback c (s\<lparr>timers := ts\<rparr>) = (run_callback c s)\<lparr>timers := ts\<rparr>"
    by (cases c) (simp_all add: setters)
  then show ?case by (simp add: Cons.IH)
qed

lemma fold_callbacks_now_upd:
  "fold run_callback cbs (s\<lparr>now := t\<rparr>) = (fold run_callback cbs s)\<lparr>now := t\<rparr>"
proof (induction cbs arbitrary: s)
  case Nil
  show ?case by simp
next
  case (Cons c cbs)
  have "run_callback c (s\<lparr>now := t\<rparr>) = (run_callback c s)\<lparr>now := t\<rparr>"
    by (cases c) (simp_all add: setters)
  then show ?case by (simp add: Cons.IH)
qed


lemma fold_callbacks_frame:
  "topic (fold run_callback cbs s) = topic s
 \<and> difficulty (fold run_callback cbs s) = difficulty s
 \<and> question (fold run_callback cbs s) = question s
 \<and> selectedAnswer (fold run_callback cbs s) = selectedAnswer s
 \<and> timers (fold run_callback cbs s) = timers s
 \<and> now (fold run_callback cbs s) = now s
 \<and> requests (fold run_callback cbs s) = requests s
 \<and> console (fold run_callback cbs s) = console s"
proof (induction cbs arbitrary: s)
  case Nil
  show ?case by simp
next
  case (Cons c cbs)
  show ?case by (cases c) (simp_all add: Cons.IH setters)
qed

lemma fold_callbacks_no_commit:
  "\<forall>c\<in>set cbs. \<not> is_commit c \<Longrightarrow>
     feedback (fold run_callback cbs s) = feedback s
   \<and> loading (fold run_callback cbs s) = loading s"
proof (induction cbs arbitrary: s)
  case Nil
  show ?case by simp
next
  case (Cons c cbs)
  then show ?case by (cases c) simp_all
qed

lemma set_due_callbacks:
  "set (due_callbacks d s) = snd ` {e \<in> set (timers s). fst e \<le> now s + d}"
  by (auto simp add: due_callbacks_def is_due_def)

lemma advance_frame:
  "topic (advance d s) = topic s
 \<and> difficulty (advance d s) = difficulty s
 \<and> question (advance d s) = question s
 \<and> selectedAnswer (advance d s) = selectedAnswer s
 \<and> now (advance d s) = now s + d
 \<and> requests (advance d s) = requests s
 \<and> console (advance d s) = console s
 \<and> timers (advance d s) = filter (\<lambda>e. \<not> is_due (now s + d) e) (timers s)"
  by (simp add: advance_def fold_callbacks_frame)

lemma advance_toasts:
  "toasts (advance d s) =
     filter (\<lambda>t. RemoveToast (toast_id t) \<notin> set (due_callbacks d s)) (toasts s)"
  by (simp add: advance_def fold_callbacks_toasts)

lemma advance_quiet:
  assumes "\<forall>e\<in>set (timers s). is_commit (snd e) \<longrightarrow> now s + d < fst e"
  shows "feedback (advance d s) = feedback s \<and> loading (advance d s) = loading s"
proof -
  have "\<forall>c\<in>set (due_callbacks d s). \<not> is_commit c"
    using assms by (fastforce simp add: set_due_callbacks)
  then show ?thesis
    by (simp add: advance_def fold_callbacks_no_commit)
qed

lemma advance_timer_not_due:
  assumes "now s + d < fst e"
  shows "advance d (s\<lparr>timers := timers s @ [e]\<rparr>) =
           (advance d s)\<lparr>timers := timers (advance d s) @ [e]\<rparr>"
proof -
  have "\<not> is_due (now s + d) e"
    using assms by (simp add: is_due_def)
  then show ?thesis
    by (simp add: advance_def due_callbacks_def fold_callbacks_timers_upd fold_callbacks_frame)
qed

lemma advance_timer_due:
  assumes "fst e = now s + d"
  shows "advance d (s\<lparr>timers := timers s @ [e]\<rparr>) = run_callback (snd e) (advance d s)"
proof -
  have due: "is_due (now s + d) e"
    using assms by (simp add: is_due_def)
  have "\<forall>y\<in>set (filter (is_due (now s + d)) (timers s)). fst y \<le> fst e"
    using assms by (simp add: is_due_def)
  then have "sort_key fst (filter (is_due (now s + d)) (timers s) @ [e]) =
             sort_key fst (filter (is_due (now s + d)) (timers s)) @ [e]"
    by (rule sort_key_snoc)
  with due show ?thesis
    by (simp add: advance_def due_callbacks_def)
qed

lemma advance_toasts_upd:
  "advance d (s\<lparr>toasts := ts\<rparr>) =
     (advance d s)\<lparr>toasts := filter (\<lambda>t. RemoveToast (toast_id t) \<notin> set (due_callbacks d s)) ts\<rparr>"
proof -
  have "due_callbacks d (s\<lparr>toasts := ts\<rparr>) = due_callbacks d s"
    by (simp add: due_callbacks_def)
  then show ?thesis
    by (simp add: advance_def fold_callbacks_toasts_upd fold_callbacks_timers_upd
          fold_callbacks_now_upd)
qed

subsection \<open>The handlers, branch by branch\<close>

lemma opt_member_truthy:
  "truthy (opt_member v k) \<longleftrightarrow> \<not> nullish v \<and> truthy (property v k)"
  by (simp add: opt_member_def)

lemma fetchQuestion_settle_error:
  assumes "question_payload net = Inl e"
  shows "fetchQuestion_settle rid net s =
           s\<lparr>console := console s @ [e],
             toasts := toasts s @
               [\<lparr>toast_id = rid, title = Some ''Error'',
                 description = Some ''Failed to fetch question. Please try again.'',
                 variant = Destructive\<rparr>],
             timers := timers s @ [(now s + 5000, RemoveToast rid)],
             loading := False\<rparr>"
  using assms by (simp add: fetchQuestion_settle_def handleError_def toast_eq setters)

lemma fetchQuestion_settle_success:
  assumes "question_payload net = Inr data"
  shows "fetchQuestion_settle rid net s =
           s\<lparr>question := data, selectedAnswer := [], feedback := JNull, loading := False\<rparr>"
  using assms by (simp add: fetchQuestion_settle_def setters)

lemma submitAnswer_settle_error:
  assumes "feedback_payload net = Inl e"
  shows "submitAnswer_settle rid net s =
           s\<lparr>console := console s @ [e],
             toasts := toasts s @
               [\<lparr>toast_id = rid, title = Some ''Error'',
                 description = Some ''Failed to submit answer. Please try again.'',
                 variant = Destructive\<rparr>],
             timers := timers s @ [(now s + 5000, RemoveToast rid)],
             loading := False\<rparr>"
  using assms
  by (simp add: submitAnswer_settle_def submitAnswer_catch_def handleError_def toast_eq setters)

lemma submitAnswer_settle_success:
  assumes "feedback_payload net = Inr data"
  shows "submitAnswer_settle rid net s =
           s\<lparr>timers := timers s @ [(now s + 5000, CommitFeedback data)]\<rparr>"
  using assms by (simp add: submitAnswer_settle_def setters)

lemma fetchQuestion_sent:
  assumes "topic s \<noteq> []" and "difficulty s \<noteq> []"
  shows "fetchQuestion rid net s =
           fetchQuestion_settle rid net
             (s\<lparr>loading := True,
                requests := requests s @ [PostQuestions (topic s) (difficulty s)]\<rparr>)"
  using assms by (simp add: fetchQuestion_def setters)

lemma submitAnswer_sent:
  assumes "truthy (opt_member (question s) ''id'')" and "selectedAnswer s \<noteq> []"
  shows "submitAnswer rid net s =
           submitAnswer_settle rid net
             (s\<lparr>loading := True,
                requests := requests s @
                  [PostSubmit (property (question s) ''id'') (selectedAnswer s)]\<rparr>)"
  using assms by (simp add: submitAnswer_def opt_member_truthy member_def setters)

lemma submitAnswer_not_sent:
  assumes "\<not> truthy (opt_member (question s) ''id'') \<or> selectedAnswer s = []"
  shows "submitAnswer rid net s =
           s\<lparr>toasts := toasts s @
               [\<lparr>toast_id = rid, title = Some ''Invalid Submission'',
                 description = Some ''Please select an answer before submitting'',
                 variant = Destructive\<rparr>],
             timers := timers s @ [(now s + 5000, RemoveToast rid)]\<rparr>"
  using assms by (auto simp add: submitAnswer_def toast_eq)

lemma question_payload_valid:
  assumes "ok r" and "json r = Some data"
    and "truthy (property data ''id'')"
    and "truthy (property data ''question_text'')"
    and "isArray (property data ''options'')"
  shows "question_payload (Resolved r) = Inr data"
proof -
  have "\<not> nullish data"
    using assms(3) by (cases data) simp_all
  with assms show ?thesis
    by (simp add: question_payload_def)
qed

lemma feedback_payload_valid:
  assumes "ok r" and "json r = Some data"
    and "typeof (property data ''is_correct'') = ''boolean''"
    and "isArray (property data ''solution_steps'')"
  shows "feedback_payload (Resolved r) = Inr data"
proof -
  have "\<not> nullish data"
    using assms(4) by (cases data) simp_all
  with assms show ?thesis
    by (simp add: feedback_payload_def)
qed

lemmas handler_defs =
  fetchQuestion_def fetchQuestion_settle_def question_payload_def
  submitAnswer_def submitAnswer_settle_def submitAnswer_catch_def feedback_payload_def
  handleError_def toast_eq ok_def member_def opt_member_def

lemmas sample_defs =
  initial_def sample_question_def sample_feedback_def

lemma answering_eq:
  "answering =
     \<lparr>topic = ''algebra'', difficulty = ''beginner'', question = sample_question,
      selectedAnswer = ''4'', feedback = JNull, loading = False, toasts = [], timers = [],
      now = 0, requests = [PostQuestions ''algebra'' ''beginner''], console = []\<rparr>"
  by (simp add: answering_def handler_defs setters sample_defs)

lemma toast_selection:
  "topic (toast rid a s) = topic s \<and> difficulty (toast rid a s) = difficulty s"
  by (simp add: toast_eq)

lemma fetchQuestion_settle_selection:
  "topic (fetchQuestion_settle rid net s) = topic s
 \<and> difficulty (fetchQuestion_settle rid net s) = difficulty s"
  by (cases "question_payload net")
     (simp_all add: fetchQuestion_settle_error fetchQuestion_settle_success)

lemma submitAnswer_settle_selection:
  "topic (submitAnswer_settle rid net s) = topic s
 \<and> difficulty (submitAnswer_settle rid net s) = difficulty s"
  by (cases "feedback_payload net")
     (simp_all add: submitAnswer_settle_error submitAnswer_settle_success)

lemma submitAnswer_valid:
  assumes "truthy (opt_member (question s) ''id'')" and "selectedAnswer s \<noteq> []"
    and "ok r" and "json r = Some data"
    and "typeof (property data ''is_correct'') = ''boolean''"
    and "isArray (property data ''solution_steps'')"
  shows "submitAnswer rid (Resolved r) s =
           (s\<lparr>loading := True,
              requests := requests s @
                [PostSubmit (property (question s) ''id'') (selectedAnswer s)]\<rparr>)
           \<lparr>timers := timers s @ [(now s + 5000, CommitFeedback data)]\<rparr>"
proof -
  have "feedback_payload (Resolved r) = Inr data"
    using assms(3-6) by (rule feedback_payload_valid)
  then show ?thesis
    using assms(1,2) by (simp add: submitAnswer_sent submitAnswer_settle_success)
qed

lemma noticed_eq:
  "noticed =
     \<lparr>topic = ''algebra'', difficulty = ''beginner'', question = JNull, selectedAnswer = [],
      feedback = JNull, loading = False,
      toasts = [\<lparr>toast_id = ''a1'', title = Some ''Error'',
                 description = Some ''Failed to fetch question. Please try again.'',
                 variant = Destructive\<rparr>],
      timers = [(5000, RemoveToast ''a1'')], now = 2000,
      requests = [PostQuestions ''algebra'' ''beginner''], console = [HttpError 500]\<rparr>"
  by (simp add: noticed_def handler_defs setters advance_def due_callbacks_def is_due_def
        initial_def)

text \<open>
  When nothing happens but the passage of time, a valid answer to Submit Answer is
  shown after its five seconds: as long as no commit registered earlier falls due
  before, feedback and loading stay as the handler left them for every lapse of less
  than 5000 milliseconds, and at 5000 milliseconds the feedback is the payload and
  loading is false. A click in between is another matter.
\<close>

lemma submitAnswer_commit_undisturbed:
  assumes "truthy (opt_member (question s) ''id'')" and "selectedAnswer s \<noteq> []"
    and "ok r" and "json r = Some data"
    and "typeof (property data ''is_correct'') = ''boolean''"
    and "isArray (property data ''solution_steps'')"
  shows "feedback (submitAnswer rid (Resolved r) s) = feedback s
       \<and> loading (submitAnswer rid (Resolved r) s)
       \<and> ((\<forall>e\<in>set (timers s). is_commit (snd e) \<longrightarrow> now s + 5000 \<le> fst e) \<longrightarrow>
            (\<forall>d<5000.
               feedback (advance d (submitAnswer rid (Resolved r) s)) = feedback s
             \<and> loading (advance d (submitAnswer rid (Resolved r) s))))
       \<and> feedback (advance 5000 (submitAnswer rid (Resolved r) s)) = data
       \<and> \<not> loading (advance 5000 (submitAnswer rid (Resolved r) s))"
proof -
  define s0 where
    "s0 = s\<lparr>loading := True,
            requests := requests s @
              [PostSubmit (property (question s) ''id'') (selectedAnswer s)]\<rparr>"
  have s0: "timers s0 = timers s" "now s0 = now s" "feedback s0 = feedback s" "loading s0"
    by (simp_all add: s0_def)
  have run: "submitAnswer rid (Resolved r) s =
               s0\<lparr>timers := timers s0 @ [(now s0 + 5000, CommitFeedback data)]\<rparr>"
    using assms by (simp add: submitAnswer_valid s0_def)
  have at_once: "feedback (submitAnswer rid (Resolved r) s) = feedback s
               \<and> loading (submitAnswer rid (Resolved r) s)"
    by (simp add: run s0)
  have before: "feedback (advance d (submitAnswer rid (Resolved r) s)) = feedback s
              \<and> loading (advance d (submitAnswer rid (Resolved r) s))"
    if quiet: "\<forall>e\<in>set (timers s). is_commit (snd e) \<longrightarrow> now s + 5000 \<le> fst e"
      and d: "d < 5000" for d
  proof -
    have "advance d (submitAnswer rid (Resolved r) s) =
            (advance d s0)\<lparr>timers := timers (advance d s0) @
               [(now s0 + 5000, CommitFeedback data)]\<rparr>"
      unfolding run using d by (intro advance_timer_not_due) simp
    moreover have "\<forall>e\<in>set (timers s0). is_commit (snd e) \<longrightarrow> now s0 + d < fst e"
      using quiet d by (fastforce simp add: s0)
    then have "feedback (advance d s0) = feedback s0 \<and> loading (advance d s0) = loading s0"
      by (rule advance_quiet)
    ultimately show ?thesis
      by (simp add: s0)
  qed
  have "advance 5000 (submitAnswer rid (Resolved r) s) =
          run_callback (snd (now s0 + 5000, CommitFeedback data)) (advance 5000 s0)"
    unfolding run by (intro advance_timer_due) simp
  then have after: "feedback (advance 5000 (submitAnswer rid (Resolved r) s)) = data
                  \<and> \<not> loading (advance 5000 (submitAnswer rid (Resolved r) s))"
    by (simp add: setters)
  from at_once before after show ?thesis
    by blast
qed

lemmas session_defs =
  resubmission_def try_another_def call_def topics_def difficulties_def
  getQuestion_disabled_def submit_disabled_def option_texts_def
  fetchQuestion_call_def submitAnswer_call_def
  advance_def due_callbacks_def is_due_def

lemma fetchQuestion_call_settle:
  "fetchQuestion rid net s =
     (if topic s = [] \<or> difficulty s = [] then fetchQuestion_call rid s
      else fetchQuestion_settle rid net (fetchQuestion_call rid s))"
  by (simp add: fetchQuestion_def fetchQuestion_call_def)

lemma submitAnswer_call_settle:
  "submitAnswer rid net s =
     (if \<not> truthy (opt_member (question s) ''id'') \<or> selectedAnswer s = []
      then submitAnswer_call rid s
      else submitAnswer_settle rid net (submitAnswer_call rid s))"
  by (simp add: submitAnswer_def submitAnswer_call_def opt_member_truthy member_def)

subsection \<open>The claims\<close>

text \<open>
  C5. When topic or difficulty is empty, Request Question issues no request, appends
  the validation notice to the toast list, and leaves question, selected answer,
  feedback and loading as they were.
\<close>

theorem fetchQuestion_unset_selection:
  assumes "topic s = [] \<or> difficulty s = []"
  shows "requests (fetchQuestion rid net s) = requests s
       \<and> toasts (fetchQuestion rid net s) = toasts s @
           [\<lparr>toast_id = rid, title = Some ''Invalid Input'',
             description = Some ''Please select both topic and difficulty'',
             variant = Destructive\<rparr>]
       \<and> question (fetchQuestion rid net s) = question s
       \<and> selectedAnswer (fetchQuestion rid net s) = selectedAnswer s
       \<and> feedback (fetchQuestion rid net s) = feedback s
       \<and> loading (fetchQuestion rid net s) = loading s"
  using assms by (auto simp add: fetchQuestion_def toast_eq)

theorem fetchQuestion_unset_selection_witness:
  "(topic initial = [] \<or> difficulty initial = [])
 \<and> requests (fetchQuestion ''k7'' Rejected initial) = []
 \<and> toasts (fetchQuestion ''k7'' Rejected initial) =
     [\<lparr>toast_id = ''k7'', title = Some ''Invalid Input'',
       description = Some ''Please select both topic and difficulty'',
       variant = Destructive\<rparr>]
 \<and> question (fetchQuestion ''k7'' Rejected initial) = JNull
 \<and> \<not> loading (fetchQuestion ''k7'' Rejected initial)"
  using fetchQuestion_unset_selection [of initial "''k7''" Rejected]
  by (simp add: initial_def)

text \<open>
  C6. When there is no active question, or its \<^verbatim>\<open>id\<close> is falsy, or no answer is
  selected, Submit Answer issues no request, appends the validation notice to the toast
  list, and leaves question, selected answer, feedback and loading as they were.
\<close>

theorem submitAnswer_nothing_to_submit:
  assumes "nullish (question s) \<or> \<not> truthy (property (question s) ''id'')
           \<or> selectedAnswer s = []"
  shows "requests (submitAnswer rid net s) = requests s
       \<and> toasts (submitAnswer rid net s) = toasts s @
           [\<lparr>toast_id = rid, title = Some ''Invalid Submission'',
             description = Some ''Please select an answer before submitting'',
             variant = Destructive\<rparr>]
       \<and> question (submitAnswer rid net s) = question s
       \<and> selectedAnswer (submitAnswer rid net s) = selectedAnswer s
       \<and> feedback (submitAnswer rid net s) = feedback s
       \<and> loading (submitAnswer rid net s) = loading s"
proof -
  have "\<not> truthy (opt_member (question s) ''id'') \<or> selectedAnswer s = []"
    using assms by (auto simp add: opt_member_truthy)
  then show ?thesis
    by (simp add: submitAnswer_not_sent)
qed

theorem submitAnswer_nothing_to_submit_witness:
  "(nullish (question initial) \<or> \<not> truthy (property (question initial) ''id'')
      \<or> selectedAnswer initial = [])
 \<and> requests (submitAnswer ''k3'' Rejected initial) = []
 \<and> toasts (submitAnswer ''k3'' Rejected initial) =
     [\<lparr>toast_id = ''k3'', title = Some ''Invalid Submission'',
       description = Some ''Please select an answer before submitting'',
       variant = Destructive\<rparr>]
 \<and> feedback (submitAnswer ''k3'' Rejected initial) = JNull
 \<and> \<not> loading (submitAnswer ''k3'' Rejected initial)"
  using submitAnswer_nothing_to_submit [of initial "''k3''" Rejected]
  by (simp add: initial_def)

text \<open>
  C4. When Request Question reaches the network and the response has a status from 200
  to 299 and a payload with a truthy \<^verbatim>\<open>id\<close>, a truthy \<^verbatim>\<open>question_text\<close> and an
  array \<^verbatim>\<open>options\<close>, the question becomes that payload, the selected answer becomes
  the empty string and the feedback becomes \<^verbatim>\<open>null\<close>; loading ends false and no
  notice is raised.
\<close>

theorem fetchQuestion_valid_payload:
  assumes "topic s \<noteq> []" and "difficulty s \<noteq> []"
    and "ok r" and "json r = Some data"
    and "truthy (property data ''id'')"
    and "truthy (property data ''question_text'')"
    and "isArray (property data ''options'')"
  shows "question (fetchQuestion rid (Resolved r) s) = data
       \<and> selectedAnswer (fetchQuestion rid (Resolved r) s) = []
       \<and> feedback (fetchQuestion rid (Resolved r) s) = JNull
       \<and> loading (fetchQuestion rid (Resolved r) s) = False
       \<and> toasts (fetchQuestion rid (Resolved r) s) = toasts s"
proof -
  have "question_payload (Resolved r) = Inr data"
    using assms(3-7) by (rule question_payload_valid)
  then show ?thesis
    using assms(1,2) by (simp add: fetchQuestion_sent fetchQuestion_settle_success)
qed

theorem fetchQuestion_valid_payload_witness:
  "topic answering \<noteq> [] \<and> difficulty answering \<noteq> []
 \<and> ok \<lparr>status = 200, json = Some sample_question\<rparr>
 \<and> truthy (property sample_question ''id'')
 \<and> truthy (property sample_question ''question_text'')
 \<and> isArray (property sample_question ''options'')
 \<and> question (fetchQuestion ''k4'' (Resolved \<lparr>status = 200, json = Some sample_question\<rparr>)
      (answering\<lparr>feedback := sample_feedback\<rparr>)) = sample_question
 \<and> selectedAnswer (fetchQuestion ''k4'' (Resolved \<lparr>status = 200, json = Some sample_question\<rparr>)
      (answering\<lparr>feedback := sample_feedback\<rparr>)) = []
 \<and> feedback (fetchQuestion ''k4'' (Resolved \<lparr>status = 200, json = Some sample_question\<rparr>)
      (answering\<lparr>feedback := sample_feedback\<rparr>)) = JNull"
  using fetchQuestion_valid_payload
    [of "answering\<lparr>feedback := sample_feedback\<rparr>" "\<lparr>status = 200, json = Some sample_question\<rparr>"
        sample_question "''k4''"]
  by (simp add: answering_eq ok_def sample_question_def)

text \<open>
  C3. When Request Question reaches the network and fails there (the fetch rejects, the
  status is outside 200 to 299, the body is not JSON, or the payload has a falsy or
  missing \<^verbatim>\<open>id\<close>, a falsy or missing \<^verbatim>\<open>question_text\<close>, or \<^verbatim>\<open>options\<close> that is
  not an array), the retry notice is appended to the toast list, the question is left as
  it was and loading ends false.
\<close>

theorem fetchQuestion_failure:
  assumes "topic s \<noteq> []" and "difficulty s \<noteq> []"
    and "net = Rejected
       \<or> (\<exists>r. net = Resolved r \<and>
            (\<not> ok r \<or> json r = None
             \<or> (\<exists>data. json r = Some data \<and>
                  (\<not> truthy (property data ''id'')
                   \<or> \<not> truthy (property data ''question_text'')
                   \<or> \<not> isArray (property data ''options'')))))"
  shows "toasts (fetchQuestion rid net s) = toasts s @
           [\<lparr>toast_id = rid, title = Some ''Error'',
             description = Some ''Failed to fetch question. Please try again.'',
             variant = Destructive\<rparr>]
       \<and> question (fetchQuestion rid net s) = question s
       \<and> loading (fetchQuestion rid net s) = False"
proof -
  have "\<exists>e. question_payload net = Inl e"
    using assms(3) by (auto simp add: question_payload_def)
  then obtain e where "question_payload net = Inl e" ..
  then show ?thesis
    using assms(1,2) by (simp add: fetchQuestion_sent fetchQuestion_settle_error)
qed

theorem fetchQuestion_failure_witness:
  "topic answering \<noteq> [] \<and> difficulty answering \<noteq> []
 \<and> \<not> ok \<lparr>status = 500, json = None\<rparr>
 \<and> toasts (fetchQuestion ''k9'' (Resolved \<lparr>status = 500, json = None\<rparr>) answering) =
     [\<lparr>toast_id = ''k9'', title = Some ''Error'',
       description = Some ''Failed to fetch question. Please try again.'',
       variant = Destructive\<rparr>]
 \<and> question (fetchQuestion ''k9'' (Resolved \<lparr>status = 500, json = None\<rparr>) answering) =
     sample_question
 \<and> \<not> loading (fetchQuestion ''k9'' (Resolved \<lparr>status = 500, json = None\<rparr>) answering)"
  using fetchQuestion_failure
    [of answering "Resolved \<lparr>status = 500, json = None\<rparr>" "''k9''"]
  by (simp add: answering_eq ok_def)

text \<open>
  C10. A payload that has an \<^verbatim>\<open>id\<close>, a \<^verbatim>\<open>question_text\<close> and an array \<^verbatim>\<open>options\<close>
  is still rejected as malformed when the \<^verbatim>\<open>id\<close> or the \<^verbatim>\<open>question_text\<close> is falsy
  (the number 0, the empty string): the check tests truthiness, not presence. The error
  logged is the format error, the retry notice is raised and the question is left as it
  was. The witness is the payload of the documented scenario with the identifier 0.
\<close>

theorem fetchQuestion_rejects_falsy_fields:
  assumes "topic s \<noteq> []" and "difficulty s \<noteq> []"
    and "ok r" and "json r = Some (JObj kvs)"
    and "map_of kvs ''id'' = Some i"
    and "map_of kvs ''question_text'' = Some q"
    and "map_of kvs ''options'' = Some (JArr os)"
    and "\<not> truthy i \<or> \<not> truthy q"
  shows "console (fetchQuestion rid (Resolved r) s) =
           console s @ [Error ''Invalid question format received'']
       \<and> toasts (fetchQuestion rid (Resolved r) s) = toasts s @
           [\<lparr>toast_id = rid, title = Some ''Error'',
             description = Some ''Failed to fetch question. Please try again.'',
             variant = Destructive\<rparr>]
       \<and> question (fetchQuestion rid (Resolved r) s) = question s"
proof -
  have "question_payload (Resolved r) = Inl (Error ''Invalid question format received'')"
    using assms(3-8) by (auto simp add: question_payload_def)
  then show ?thesis
    using assms(1,2) by (simp add: fetchQuestion_sent fetchQuestion_settle_error)
qed

theorem fetchQuestion_rejects_falsy_fields_witness:
  "topic answering \<noteq> [] \<and> difficulty answering \<noteq> []
 \<and> ok \<lparr>status = 200, json = Some zero_id_question\<rparr>
 \<and> property zero_id_question ''id'' = JNum 0
 \<and> property zero_id_question ''question_text'' = JStr ''2+2=?''
 \<and> isArray (property zero_id_question ''options'')
 \<and> console (fetchQuestion ''k2'' (Resolved \<lparr>status = 200, json = Some zero_id_question\<rparr>)
      answering) = [Error ''Invalid question format received'']
 \<and> toasts (fetchQuestion ''k2'' (Resolved \<lparr>status = 200, json = Some zero_id_question\<rparr>)
      answering) =
     [\<lparr>toast_id = ''k2'', title = Some ''Error'',
       description = Some ''Failed to fetch question. Please try again.'',
       variant = Destructive\<rparr>]
 \<and> question (fetchQuestion ''k2'' (Resolved \<lparr>status = 200, json = Some zero_id_question\<rparr>)
      answering) = sample_question"
  using fetchQuestion_rejects_falsy_fields
    [of answering "\<lparr>status = 200, json = Some zero_id_question\<rparr>"
        "[(''id'', JNum 0), (''question_text'', JStr ''2+2=?''),
          (''options'', JArr [JObj [(''text'', JStr ''3'')], JObj [(''text'', JStr ''4'')]])]"
        "JNum 0" "JStr ''2+2=?''"
        "[JObj [(''text'', JStr ''3'')], JObj [(''text'', JStr ''4'')]]" "''k2''"]
  by (simp add: answering_eq ok_def zero_id_question_def)

text \<open>
  C2. When Submit Answer reaches the network and the response has a status from 200 to
  299 and a payload whose \<^verbatim>\<open>is_correct\<close> is not a boolean or whose
  \<^verbatim>\<open>solution_steps\<close> is not an array, the error is logged (the format error, or the
  TypeError of reading a property of \<^verbatim>\<open>null\<close>), the error notice is raised, the
  feedback is left as it was, loading is false at once, and the only timer registered
  is the one that removes the notice: no commit of feedback is scheduled.
\<close>

theorem submitAnswer_malformed_feedback:
  assumes "truthy (opt_member (question s) ''id'')" and "selectedAnswer s \<noteq> []"
    and "ok r" and "json r = Some data"
    and "typeof (property data ''is_correct'') \<noteq> ''boolean''
       \<or> \<not> isArray (property data ''solution_steps'')"
  shows "console (submitAnswer rid (Resolved r) s) =
           console s @
             [if nullish data then TypeError else Error ''Invalid feedback format received'']
       \<and> toasts (submitAnswer rid (Resolved r) s) = toasts s @
           [\<lparr>toast_id = rid, title = Some ''Error'',
             description = Some ''Failed to submit answer. Please try again.'',
             variant = Destructive\<rparr>]
       \<and> feedback (submitAnswer rid (Resolved r) s) = feedback s
       \<and> loading (submitAnswer rid (Resolved r) s) = False
       \<and> timers (submitAnswer rid (Resolved r) s) =
           timers s @ [(now s + 5000, RemoveToast rid)]"
proof -
  have "feedback_payload (Resolved r) =
          Inl (if nullish data then TypeError else Error ''Invalid feedback format received'')"
    using assms(3-5) by (auto simp add: feedback_payload_def)
  then show ?thesis
    using assms(1,2) by (simp add: submitAnswer_sent submitAnswer_settle_error)
qed

theorem submitAnswer_malformed_feedback_witness:
  "truthy (opt_member (question answering) ''id'') \<and> selectedAnswer answering \<noteq> []
 \<and> ok \<lparr>status = 200, json = Some unflagged_feedback\<rparr>
 \<and> typeof (property unflagged_feedback ''is_correct'') \<noteq> ''boolean''
 \<and> console (submitAnswer ''k5'' (Resolved \<lparr>status = 200, json = Some unflagged_feedback\<rparr>)
      answering) = [Error ''Invalid feedback format received'']
 \<and> feedback (submitAnswer ''k5'' (Resolved \<lparr>status = 200, json = Some unflagged_feedback\<rparr>)
      answering) = JNull
 \<and> \<not> loading (submitAnswer ''k5'' (Resolved \<lparr>status = 200, json = Some unflagged_feedback\<rparr>)
      answering)
 \<and> timers (submitAnswer ''k5'' (Resolved \<lparr>status = 200, json = Some unflagged_feedback\<rparr>)
      answering) = [(5000, RemoveToast ''k5'')]"
  using submitAnswer_malformed_feedback
    [of answering "\<lparr>status = 200, json = Some unflagged_feedback\<rparr>" unflagged_feedback "''k5''"]
  by (simp add: answering_eq ok_def opt_member_def sample_question_def unflagged_feedback_def)

text \<open>
  C7. When Submit Answer fails, at the guard (no question, a falsy \<^verbatim>\<open>id\<close>, no
  selected answer) or at the network (the fetch rejects, the status is outside 200 to
  299, the body is not JSON, or the payload is malformed), the question, the selected
  answer and the feedback are left as they were, and so are topic and difficulty; no
  commit of feedback is scheduled either.
\<close>

theorem submitAnswer_failure_frame:
  assumes "\<not> truthy (opt_member (question s) ''id'') \<or> selectedAnswer s = []
       \<or> net = Rejected
       \<or> (\<exists>r. net = Resolved r \<and>
            (\<not> ok r \<or> json r = None
             \<or> (\<exists>data. json r = Some data \<and>
                  (typeof (property data ''is_correct'') \<noteq> ''boolean''
                   \<or> \<not> isArray (property data ''solution_steps'')))))"
  shows "question (submitAnswer rid net s) = question s
       \<and> selectedAnswer (submitAnswer rid net s) = selectedAnswer s
       \<and> feedback (submitAnswer rid net s) = feedback s
       \<and> topic (submitAnswer rid net s) = topic s
       \<and> difficulty (submitAnswer rid net s) = difficulty s
       \<and> filter (\<lambda>e. is_commit (snd e)) (timers (submitAnswer rid net s)) =
           filter (\<lambda>e. is_commit (snd e)) (timers s)"
proof (cases "\<not> truthy (opt_member (question s) ''id'') \<or> selectedAnswer s = []")
  case True
  then show ?thesis
    by (simp add: submitAnswer_not_sent)
next
  case False
  with assms have "\<exists>e. feedback_payload net = Inl e"
    by (auto simp add: feedback_payload_def)
  then obtain e where "feedback_payload net = Inl e" ..
  with False show ?thesis
    by (simp add: submitAnswer_sent submitAnswer_settle_error)
qed

theorem submitAnswer_failure_frame_witness:
  "\<not> ok \<lparr>status = 500, json = None\<rparr>
 \<and> question (submitAnswer ''k6'' (Resolved \<lparr>status = 500, json = None\<rparr>) answering) =
     sample_question
 \<and> selectedAnswer (submitAnswer ''k6'' (Resolved \<lparr>status = 500, json = None\<rparr>) answering) =
     ''4''
 \<and> feedback (submitAnswer ''k6'' (Resolved \<lparr>status = 500, json = None\<rparr>) answering) = JNull
 \<and> \<not> loading (submitAnswer ''k6'' (Resolved \<lparr>status = 500, json = None\<rparr>) answering)"
  using submitAnswer_failure_frame
    [of answering "Resolved \<lparr>status = 500, json = None\<rparr>" "''k6''"]
  by (simp add: answering_eq ok_def handler_defs setters sample_question_def)

text \<open>
  C9. Topic and difficulty are left as they were by every run of Request Question and
  of Submit Answer, whatever the outcome, by the handling of a response in whatever
  state it arrives, and by every timer that fires as time passes. Only \<open>setTopic\<close>
  and \<open>setDifficulty\<close>, which the two selectors call, write them.
\<close>

theorem selection_persists:
  "topic (fetchQuestion rid net s) = topic s
 \<and> difficulty (fetchQuestion rid net s) = difficulty s
 \<and> topic (submitAnswer rid net s) = topic s
 \<and> difficulty (submitAnswer rid net s) = difficulty s
 \<and> topic (fetchQuestion_settle rid net s) = topic s
 \<and> difficulty (fetchQuestion_settle rid net s) = difficulty s
 \<and> topic (submitAnswer_settle rid net s) = topic s
 \<and> difficulty (submitAnswer_settle rid net s) = difficulty s
 \<and> topic (advance d s) = topic s
 \<and> difficulty (advance d s) = difficulty s"
proof -
  have fq: "topic (fetchQuestion rid net s) = topic s
          \<and> difficulty (fetchQuestion rid net s) = difficulty s"
  proof (cases "topic s = [] \<or> difficulty s = []")
    case True
    then show ?thesis
      by (auto simp add: fetchQuestion_def toast_selection)
  next
    case False
    then show ?thesis
      by (simp add: fetchQuestion_sent fetchQuestion_settle_selection)
  qed
  have sa: "topic (submitAnswer rid net s) = topic s
          \<and> difficulty (submitAnswer rid net s) = difficulty s"
  proof (cases "\<not> truthy (opt_member (question s) ''id'') \<or> selectedAnswer s = []")
    case True
    then show ?thesis
      by (simp add: submitAnswer_not_sent)
  next
    case False
    then show ?thesis
      by (simp add: submitAnswer_sent submitAnswer_settle_selection)
  qed
  show ?thesis
    using fq sa
    by (simp add: fetchQuestion_settle_selection submitAnswer_settle_selection advance_frame)
qed

theorem selection_persists_witness:
  "topic (fetchQuestion ''k8'' (Resolved \<lparr>status = 200, json = Some sample_question\<rparr>)
     answering) = ''algebra''
 \<and> difficulty (fetchQuestion ''k8'' (Resolved \<lparr>status = 200, json = Some sample_question\<rparr>)
     answering) = ''beginner''
 \<and> topic (advance 5000
     (submitAnswer ''k8'' (Resolved \<lparr>status = 200, json = Some sample_feedback\<rparr>) answering)) =
     ''algebra''
 \<and> difficulty (advance 5000
     (submitAnswer ''k8'' (Resolved \<lparr>status = 200, json = Some sample_feedback\<rparr>) answering)) =
     ''beginner''"
  using selection_persists
    [of "''k8''" "Resolved \<lparr>status = 200, json = Some sample_question\<rparr>" answering 5000]
    selection_persists
    [of "''k8''" "Resolved \<lparr>status = 200, json = Some sample_feedback\<rparr>" answering 5000]
    selection_persists
    [of "''k8''" "Resolved \<lparr>status = 200, json = Some sample_feedback\<rparr>"
        "submitAnswer ''k8'' (Resolved \<lparr>status = 200, json = Some sample_feedback\<rparr>) answering"
        5000]
  by (simp add: answering_eq)

text \<open>
  C1. The claim: after a valid answer to Submit Answer the feedback is not shown, and
  loading stays true, for five seconds. The code departs from it in the session
  \<open>resubmission\<close> followed by \<open>try_another\<close>, every event of which the page admits.
  The answer to the second submission is handled at 5900 milliseconds, with loading true
  and the commit registered for 10900. At 7200, which is 1300 milliseconds into the five
  seconds, the click on Try Another Question has run \<^verbatim>\<open>fetchQuestion\<close> to its
  \<^verbatim>\<open>finally\<close> block: loading is false and the feedback is \<^verbatim>\<open>null\<close>. At 10900 the
  timer still fires and shows the feedback to the first question under the second.
\<close>

theorem try_another_ends_loading:
  "run resubmission (initial, []) =
     Some (\<lparr>topic = ''algebra'', difficulty = ''beginner'', question = sample_question,
            selectedAnswer = ''4'', feedback = sample_feedback, loading = True, toasts = [],
            timers = [(10900, CommitFeedback repeat_feedback)], now = 5900,
            requests = [PostQuestions ''algebra'' ''beginner'', PostSubmit (JNum 1) ''4'',
                        PostSubmit (JNum 1) ''4''],
            console = []\<rparr>, [])
 \<and> run (resubmission @ try_another) (initial, []) =
     Some (\<lparr>topic = ''algebra'', difficulty = ''beginner'', question = next_question,
            selectedAnswer = [], feedback = JNull, loading = False, toasts = [],
            timers = [(10900, CommitFeedback repeat_feedback)], now = 7200,
            requests = [PostQuestions ''algebra'' ''beginner'', PostSubmit (JNum 1) ''4'',
                        PostSubmit (JNum 1) ''4'', PostQuestions ''algebra'' ''beginner''],
            console = []\<rparr>, [])
 \<and> run (resubmission @ try_another @ [Wait 3700]) (initial, []) =
     Some (\<lparr>topic = ''algebra'', difficulty = ''beginner'', question = next_question,
            selectedAnswer = [], feedback = repeat_feedback, loading = False, toasts = [],
            timers = [], now = 10900,
            requests = [PostQuestions ''algebra'' ''beginner'', PostSubmit (JNum 1) ''4'',
                        PostSubmit (JNum 1) ''4'', PostQuestions ''algebra'' ''beginner''],
            console = []\<rparr>, [])"
  by (simp add: session_defs handler_defs setters initial_def sample_question_def
        sample_feedback_def repeat_feedback_def next_question_def)

text \<open>
  C8. \<open>toast\<close> appends one entry, bearing the identifier drawn, to the end of the toast
  list, keeps the entries before it in their order, registers the removal of that
  identifier 5000 milliseconds later and touches nothing else. The identifier is
  whatever \<^verbatim>\<open>Math.random()\<close> yields: the code does not compare it with the
  identifiers in use, so it need not be fresh. The callback registered, in whatever state
  it runs, removes exactly the entries that bear the identifier and leaves every other
  entry and every other part of the state as it was. When nothing happens but the
  passage of time: after 5000 milliseconds the state is the one the same lapse would
  have led to without the notice, less the entries that bear the identifier; and if no
  removal of the same identifier was pending, then after every lapse of less than 5000
  milliseconds the entry is still at the end of the list and nothing else differs but
  its pending timer.
\<close>

theorem toast_lifecycle:
  "toast rid a s =
     s\<lparr>toasts := toasts s @
          [\<lparr>toast_id = rid, title = arg_title a, description = arg_description a,
            variant = (case arg_variant a of None \<Rightarrow> Default | Some v \<Rightarrow> v)\<rparr>],
       timers := timers s @ [(now s + 5000, RemoveToast rid)]\<rparr>
 \<and> run_callback (RemoveToast rid) s' =
      s'\<lparr>toasts := filter (\<lambda>t. toast_id t \<noteq> rid) (toasts s')\<rparr>
 \<and> (RemoveToast rid \<notin> snd ` set (timers s) \<longrightarrow>
      (\<forall>d<5000.
         advance d (toast rid a s) =
           (advance d s)
             \<lparr>toasts := toasts (advance d s) @
                [\<lparr>toast_id = rid, title = arg_title a, description = arg_description a,
                  variant = (case arg_variant a of None \<Rightarrow> Default | Some v \<Rightarrow> v)\<rparr>],
              timers := timers (advance d s) @ [(now s + 5000, RemoveToast rid)]\<rparr>))
 \<and> advance 5000 (toast rid a s) =
      (advance 5000 s)\<lparr>toasts := filter (\<lambda>t. toast_id t \<noteq> rid) (toasts (advance 5000 s))\<rparr>"
proof -
  define entry where
    "entry = \<lparr>toast_id = rid, title = arg_title a, description = arg_description a,
              variant = (case arg_variant a of None \<Rightarrow> Default | Some v \<Rightarrow> v)\<rparr>"
  define s1 where "s1 = s\<lparr>toasts := toasts s @ [entry]\<rparr>"
  have s1: "timers s1 = timers s" "now s1 = now s"
    by (simp_all add: s1_def)
  have run: "toast rid a s = s1\<lparr>timers := timers s1 @ [(now s1 + 5000, RemoveToast rid)]\<rparr>"
    by (simp add: toast_eq s1_def entry_def)
  have shown: "advance d s1 =
      (advance d s)\<lparr>toasts := toasts (advance d s) @
         filter (\<lambda>t. RemoveToast (toast_id t) \<notin> set (due_callbacks d s)) [entry]\<rparr>" for d
    by (simp only: s1_def advance_toasts_upd filter_append advance_toasts)
  have before: "advance d (toast rid a s) =
      (advance d s)\<lparr>toasts := toasts (advance d s) @ [entry],
                     timers := timers (advance d s) @ [(now s + 5000, RemoveToast rid)]\<rparr>"
    if fresh: "RemoveToast rid \<notin> snd ` set (timers s)" and d: "d < 5000" for d
  proof -
    have "RemoveToast rid \<notin> set (due_callbacks d s)"
      using fresh by (auto simp add: set_due_callbacks)
    then have "advance d s1 = (advance d s)\<lparr>toasts := toasts (advance d s) @ [entry]\<rparr>"
      by (simp add: shown entry_def)
    moreover have "advance d (toast rid a s) =
        (advance d s1)\<lparr>timers := timers (advance d s1) @ [(now s1 + 5000, RemoveToast rid)]\<rparr>"
      unfolding run using d by (intro advance_timer_not_due) simp
    ultimately show ?thesis
      by (simp add: s1)
  qed
  have "advance 5000 (toast rid a s) =
          run_callback (snd (now s1 + 5000, RemoveToast rid)) (advance 5000 s1)"
    unfolding run by (intro advance_timer_due) simp
  then have after: "advance 5000 (toast rid a s) =
      (advance 5000 s)\<lparr>toasts := filter (\<lambda>t. toast_id t \<noteq> rid) (toasts (advance 5000 s))\<rparr>"
    by (simp add: shown entry_def)
  from before after show ?thesis
    by (simp add: toast_eq entry_def)
qed

theorem toast_lifecycle_witness:
  "RemoveToast ''b2'' \<notin> snd ` set (timers noticed)
 \<and> map toast_id (toasts noticed) = [''a1'']
 \<and> map toast_id (toasts (toast ''b2'' \<lparr>arg_title = Some ''Error'', arg_description = None,
      arg_variant = None\<rparr> noticed)) = [''a1'', ''b2'']
 \<and> map toast_id (toasts (advance 4999 (toast ''b2'' \<lparr>arg_title = Some ''Error'',
      arg_description = None, arg_variant = None\<rparr> noticed))) = [''b2'']
 \<and> map toast_id (toasts (advance 5000 (toast ''b2'' \<lparr>arg_title = Some ''Error'',
      arg_description = None, arg_variant = None\<rparr> noticed))) = []"
proof -
  have fresh: "RemoveToast ''b2'' \<notin> snd ` set (timers noticed)"
    by (simp add: noticed_eq)
  have earlier: "toasts (advance 4999 noticed) = []"
    by (simp add: noticed_eq advance_def due_callbacks_def is_due_def)
  have later: "toasts (advance 5000 noticed) = []"
    by (simp add: noticed_eq advance_def due_callbacks_def is_due_def)
  have shown: "toasts noticed =
      [\<lparr>toast_id = ''a1'', title = Some ''Error'',
        description = Some ''Failed to fetch question. Please try again.'',
        variant = Destructive\<rparr>]"
    by (simp add: noticed_eq)
  note lifecycle =
    toast_lifecycle
      [of "''b2''" "\<lparr>arg_title = Some ''Error'', arg_description = None, arg_variant = None\<rparr>"
          noticed]
  let ?raised =
    "toast ''b2'' \<lparr>arg_title = Some ''Error'', arg_description = None, arg_variant = None\<rparr>
       noticed"
  have appended: "map toast_id (toasts ?raised) = [''a1'', ''b2'']"
    using lifecycle [THEN conjunct1] shown by simp
  have kept: "map toast_id (toasts (advance 4999 ?raised)) = [''b2'']"
    using lifecycle [THEN conjunct2, THEN conjunct2, THEN conjunct1] fresh earlier by simp
  have gone: "map toast_id (toasts (advance 5000 ?raised)) = []"
    using lifecycle [THEN conjunct2, THEN conjunct2, THEN conjunct2] later by simp
  show ?thesis
    using fresh shown appended kept gone by simp
qed

text \<open>
  The identifier need not be fresh, and then the entry need not last its five seconds.
  In the session \<open>noticed\<close> a notice with the identifier \<open>a1\<close> is two seconds old; a
  second notice for which the same identifier is drawn joins it on the list, and 3000
  milliseconds later the timer of the first removes both.
\<close>

theorem toast_lifecycle_counterexample:
  "map toast_id (toasts noticed) = [''a1'']
 \<and> timers noticed = [(5000, RemoveToast ''a1'')]
 \<and> now noticed = 2000
 \<and> map toast_id (toasts (toast ''a1'' \<lparr>arg_title = Some ''Error'', arg_description = None,
      arg_variant = None\<rparr> noticed)) = [''a1'', ''a1'']
 \<and> toasts (advance 3000 (toast ''a1'' \<lparr>arg_title = Some ''Error'', arg_description = None,
      arg_variant = None\<rparr> noticed)) = []
 \<and> timers (advance 3000 (toast ''a1'' \<lparr>arg_title = Some ''Error'', arg_description = None,
      arg_variant = None\<rparr> noticed)) = [(7000, RemoveToast ''a1'')]"
  by (simp add: noticed_eq toast_eq advance_def due_callbacks_def is_due_def)

end
